theory Spec2Isabelle
  imports Complex_Main
begin

section \<open>Numbers\<close>

text \<open>
  The TypeScript type \<open>number\<close> is an IEEE double.  Here a number that is known to be
  finite is a \<open>real\<close> and arithmetic on it is exact: rounding error of the double
  operations is not modelled.  What is modelled is the part of the double semantics
  the program can observe without any rounding: a division by zero does not fail, it
  yields \<open>Infinity\<close>, \<open>-Infinity\<close> or \<open>NaN\<close>, these values propagate through \<open>+\<close>,
  \<open>*\<close>, \<open>/\<close> and \<open>Math.round\<close>, and every comparison with \<open>NaN\<close> is false.  The
  sign of a zero is not modelled (a zero divisor counts as \<open>+0\<close>).  Where an exact
  result lies on a boundary of a comparison or of \<open>Math.round\<close>, the doubles can fall on
  the other side of it: \<open>(23 / 40) * 100\<close> is \<open>57.49999999999999\<close> in doubles and 57.5
  here.
\<close>

datatype jsnum = Fin real | PInf | NInf | NaN


fun js_mul :: "jsnum \<Rightarrow> jsnum \<Rightarrow> jsnum" where
  "js_mul (Fin a) (Fin b) = Fin (a * b)"
| "js_mul NaN _ = NaN"
| "js_mul _ NaN = NaN"
| "js_mul PInf (Fin b) = (if 0 < b then PInf else if b < 0 then NInf else NaN)"
| "js_mul NInf (Fin b) = (if 0 < b then NInf else if b < 0 then PInf else NaN)"
| "js_mul (Fin a) PInf = (if 0 < a then PInf else if a < 0 then NInf else NaN)"
| "js_mul (Fin a) NInf = (if 0 < a then NInf else if a < 0 then PInf else NaN)"
| "js_mul PInf PInf = PInf"
| "js_mul NInf NInf = PInf"
| "js_mul PInf NInf = NInf"
| "js_mul NInf PInf = NInf"

fun js_div :: "jsnum \<Rightarrow> jsnum \<Rightarrow> jsnum" where
  "js_div (Fin a) (Fin b) =
     (if b \<noteq> 0 then Fin (a / b)
      else if 0 < a then PInf else if a < 0 then NInf else NaN)"
| "js_div NaN _ = NaN"
| "js_div _ NaN = NaN"
| "js_div (Fin a) PInf = Fin 0"
| "js_div (Fin a) NInf = Fin 0"
| "js_div PInf (Fin b) = (if 0 \<le> b then PInf else NInf)"
| "js_div NInf (Fin b) = (if 0 \<le> b then NInf else PInf)"
| "js_div PInf PInf = NaN"
| "js_div PInf NInf = NaN"
| "js_div NInf PInf = NaN"
| "js_div NInf NInf = NaN"





section \<open>Data model\<close>

text \<open>
  \<open>types/spotify.ts\<close>: \<open>SpotifyTrack\<close> with its \<open>artists: Array<{ name: string }>\<close> and
  its \<open>album: { name; images: Array<{ url }> }\<close>.  An image is represented by its url.
  The metrics engine tests \<open>if (track.album)\<close>, so the album is optional here.
  The field \<open>id\<close> is called \<open>track_id\<close> (\<open>id\<close> is the identity function of HOL), the
  three fields called \<open>name\<close> are told apart by a prefix.  The artist objects that the
  API returns carry more than the declared \<open>name\<close>; their \<open>id\<close> stands for the rest
  (\<open>artist_id\<close>).  No function of the program reads it.
\<close>

record Artist =
  artist_id :: string
  artist_name :: string

record Album =
  album_name :: string
  images :: "string list"

record SpotifyTrack =
  track_id :: string
  track_name :: string
  artists :: "Artist list"
  album :: "Album option"
  duration_ms :: real

text \<open>\<open>hooks/useListeningSession\<close>: \<open>TrackListen\<close> and \<open>SessionData\<close>.  The session's
  \<open>totalDuration\<close> (minutes) is called \<open>totalDuration_s\<close> to keep it apart from the
  listen's \<open>totalDuration\<close> (seconds).\<close>

record TrackListen =
  track :: SpotifyTrack
  listenDuration :: real
  totalDuration :: real
  wasSkipped :: bool
  wasEarlySkip :: bool
  completionRate :: jsnum
  timestamp :: real

record SessionData =
  isActive :: bool
  startTime :: "real option"
  endTime :: "real option"
  tracks :: "SpotifyTrack list"
  trackListens :: "TrackListen list"
  totalDuration_s :: real

text \<open>The state of the hook: the React state \<open>session\<close> and the two refs
  \<open>lastTrackIdRef\<close> and \<open>lastProgressRef\<close>.  The interval handle is not modelled.\<close>

record HookState =
  session :: SessionData
  lastTrackId :: "string option"
  lastProgress :: real

text \<open>What \<open>spotifyApi.getCurrentlyPlaying\<close> resolves to: \<open>null\<close> (HTTP 204) or an
  object with a nullable \<open>item\<close> and a nullable \<open>progress_ms\<close>.\<close>

record CurrentlyPlaying =
  item :: "SpotifyTrack option"
  progress_ms :: "real option"

text \<open>One poll cycle either finds no token, or the fetch throws, or it resolves.\<close>

datatype fetched = NoToken | FetchFailed | Fetched "CurrentlyPlaying option"

section \<open>The session hook\<close>

definition emptySession :: SessionData where
  "emptySession =
     \<lparr>isActive = False, startTime = None, endTime = None,
      tracks = [], trackListens = [], totalDuration_s = 0\<rparr>"

definition initialState :: HookState where
  "initialState = \<lparr>session = emptySession, lastTrackId = None, lastProgress = 0\<rparr>"

text \<open>\<open>startSession\<close>, \<open>stopSession\<close>, \<open>clearSession\<close>; \<open>now\<close> is the value of
  \<open>Date.now()\<close>.  Persisting the session has no effect on the state.  \<open>stopSession\<close>
  spreads the \<open>session\<close> of the render it was created in; here that is the current
  session.\<close>

definition startSession :: "real \<Rightarrow> HookState \<Rightarrow> HookState" where
  "startSession now st =
     \<lparr>session =
        \<lparr>isActive = True, startTime = Some now, endTime = None,
         tracks = [], trackListens = [], totalDuration_s = 0\<rparr>,
      lastTrackId = None, lastProgress = 0\<rparr>"

definition stopSession :: "real \<Rightarrow> HookState \<Rightarrow> HookState" where
  "stopSession now st =
     st\<lparr>session := (session st)\<lparr>isActive := False, endTime := Some now\<rparr>\<rparr>"

definition clearSession :: "HookState \<Rightarrow> HookState" where
  "clearSession st =
     \<lparr>session = emptySession, lastTrackId = None, lastProgress = 0\<rparr>"

text \<open>The updater that \<open>pollCurrentlyPlaying\<close> passes to \<open>setSession\<close> (the spec's
  \<open>append\<close>, here \<open>appendListen\<close>): it runs on the current session.\<close>

definition appendListen :: "SpotifyTrack \<Rightarrow> TrackListen \<Rightarrow> SessionData \<Rightarrow> SessionData" where
  "appendListen trk trackListen currentSession =
     (if \<not> isActive currentSession then currentSession
      else
        let trackExists = (\<exists>t \<in> set (tracks currentSession). track_id t = track_id trk)
        in currentSession
             \<lparr>isActive := True,
              tracks := (if trackExists then tracks currentSession
                         else tracks currentSession @ [trk]),
              trackListens := trackListens currentSession @ [trackListen],
              totalDuration_s :=
                totalDuration_s currentSession + duration_ms trk / 1000 / 60\<rparr>)"

text \<open>The listen record built when the track changed, from the new track and its own
  progress.\<close>

definition newTrackListen :: "real \<Rightarrow> SpotifyTrack \<Rightarrow> real \<Rightarrow> TrackListen" where
  "newTrackListen now trk progressSec =
     (let durationSec = duration_ms trk / 1000
      in \<lparr>track = trk,
          listenDuration = progressSec,
          totalDuration = durationSec,
          wasSkipped = (progressSec < durationSec - 5),
          wasEarlySkip = (progressSec < 10),
          completionRate = js_mul (js_div (Fin progressSec) (Fin durationSec)) (Fin 100),
          timestamp = now\<rparr>)"

text \<open>
  \<open>pollCurrentlyPlaying\<close>.  The first \<open>if\<close> of the source (track differs and
  \<open>lastTrackIdRef\<close> is not null) computes values and prints them; it changes nothing
  and is left out.
\<close>

definition pollCurrentlyPlaying :: "real \<Rightarrow> fetched \<Rightarrow> HookState \<Rightarrow> HookState" where
  "pollCurrentlyPlaying now f st =
     (case f of
        NoToken \<Rightarrow> st
      | FetchFailed \<Rightarrow> st
      | Fetched None \<Rightarrow> st
      | Fetched (Some currentlyPlaying) \<Rightarrow>
          (case item currentlyPlaying of
             None \<Rightarrow> st
           | Some trk \<Rightarrow>
               let progressMs = (case progress_ms currentlyPlaying of None \<Rightarrow> 0 | Some p \<Rightarrow> p);
                   progressSec = progressMs / 1000
               in if Some (track_id trk) \<noteq> lastTrackId st
                  then \<lparr>session = appendListen trk (newTrackListen now trk progressSec) (session st),
                        lastTrackId = Some (track_id trk),
                        lastProgress = progressSec\<rparr>
                  else st\<lparr>lastProgress := progressSec\<rparr>))"

text \<open>A snapshot: a track observed playing at a position in milliseconds.\<close>

definition snapshot :: "SpotifyTrack \<Rightarrow> real \<Rightarrow> fetched" where
  "snapshot trk pos_ms = Fetched (Some \<lparr>item = Some trk, progress_ms = Some pos_ms\<rparr>)"

text \<open>Feeding a sequence of polls, each with its clock value, to the hook.\<close>

fun polls :: "(real \<times> fetched) list \<Rightarrow> HookState \<Rightarrow> HookState" where
  "polls [] st = st"
| "polls ((now, f) # ps) st = polls ps (pollCurrentlyPlaying now f st)"

text \<open>The operations on the session alone, for the states a session can reach.\<close>

datatype session_op =
  Start real | Stop real | Clear | Append SpotifyTrack TrackListen

fun apply_op :: "SessionData \<Rightarrow> session_op \<Rightarrow> SessionData" where
  "apply_op s (Start now) = session (startSession now \<lparr>session = s, lastTrackId = None, lastProgress = 0\<rparr>)"
| "apply_op s (Stop now) = session (stopSession now \<lparr>session = s, lastTrackId = None, lastProgress = 0\<rparr>)"
| "apply_op s Clear = session (clearSession \<lparr>session = s, lastTrackId = None, lastProgress = 0\<rparr>)"
| "apply_op s (Append trk l) = appendListen trk l s"

definition run_ops :: "session_op list \<Rightarrow> SessionData" where
  "run_ops ops = foldl apply_op emptySession ops"

section \<open>Objects used as dictionaries\<close>
















section \<open>The metrics engine\<close>

datatype action = remove | keep | investigate
































section \<open>The top lists, as a specification\<close>

text \<open>The distinct elements of a list in the order of their first occurrence.\<close>

definition first_seen :: "'a list \<Rightarrow> 'a list" where
  "first_seen xs = rev (remdups (rev xs))"







section \<open>The analysis per track, as a specification\<close>




section \<open>Example data\<close>

definition T1 :: SpotifyTrack where
  "T1 = \<lparr>track_id = ''T1'', track_name = ''One'', artists = [\<lparr>artist_id = ''a1'', artist_name = ''A''\<rparr>],
     album = Some \<lparr>album_name = ''X'', images = []\<rparr>, duration_ms = 200000\<rparr>"

definition T2 :: SpotifyTrack where
  "T2 = \<lparr>track_id = ''T2'', track_name = ''Two'', artists = [\<lparr>artist_id = ''b1'', artist_name = ''B''\<rparr>],
     album = Some \<lparr>album_name = ''Y'', images = []\<rparr>, duration_ms = 180000\<rparr>"

definition T3 :: SpotifyTrack where
  "T3 = \<lparr>track_id = ''T3'', track_name = ''Three'', artists = [\<lparr>artist_id = ''a2'', artist_name = ''A''\<rparr>],
     album = None, duration_ms = 150000\<rparr>"

text \<open>The snapshot sequence of the spec's Event Inferencer example, polled at clock
  values 1 to 4.\<close>

definition example_polls :: "(real \<times> fetched) list" where
  "example_polls =
     [(1, snapshot T1 5000), (2, snapshot T2 3000), (3, snapshot T2 3000), (4, snapshot T3 0)]"

text \<open>A session started at 0 that saw \<open>T1\<close> and was stopped at 9.\<close>

definition stopped_state :: HookState where
  "stopped_state = stopSession 9 (polls [(1, snapshot T1 5000)] (startSession 0 initialState))"







section \<open>The session hook: theorems\<close>

lemma append_inactive: "\<not> isActive s \<Longrightarrow> appendListen trk l s = s"
  by (simp add: appendListen_def)

lemma poll_inactive:
  "\<not> isActive (session st) \<Longrightarrow> session (pollCurrentlyPlaying now f st) = session st"
  by (simp add: pollCurrentlyPlaying_def append_inactive Let_def
      split: fetched.splits option.splits)

lemma polls_inactive: "\<not> isActive (session st) \<Longrightarrow> session (polls ps st) = session st"
proof (induction ps arbitrary: st)
  case Nil
  then show ?case by simp
next
  case (Cons p ps)
  obtain now f where p: "p = (now, f)" by (cases p)
  from Cons.prems have "session (pollCurrentlyPlaying now f st) = session st"
    by (rule poll_inactive)
  with Cons show ?case by (simp add: p)
qed


lemma append_distinct:
  "distinct (map track_id (tracks s)) \<Longrightarrow>
   distinct (map track_id (tracks (appendListen trk l s)))"
  by (auto simp add: appendListen_def Let_def)

lemma apply_op_distinct:
  "distinct (map track_id (tracks s)) \<Longrightarrow> distinct (map track_id (tracks (apply_op s op)))"
  by (cases op)
    (simp_all add: startSession_def stopSession_def clearSession_def emptySession_def
      append_distinct)

lemma foldl_apply_op_distinct:
  "distinct (map track_id (tracks s)) \<Longrightarrow>
   distinct (map track_id (tracks (foldl apply_op s ops)))"
  by (induction ops arbitrary: s) (simp_all add: apply_op_distinct)

lemma poll_distinct:
  "distinct (map track_id (tracks (session st))) \<Longrightarrow>
   distinct (map track_id (tracks (session (pollCurrentlyPlaying now f st))))"
  by (simp add: pollCurrentlyPlaying_def append_distinct Let_def
      split: fetched.splits option.splits)

subsection \<open>The Event Inferencer\<close>

text \<open>
  C1 (as the code has it).  Started afresh and fed the snapshots (T1, 5 s of 200 s),
  (T2, 3 s of 180 s), (T2, 3 s of 180 s), (T3, 0 s of 150 s), the hook records three
  listens, each at the snapshot where its track is first seen and from that track's own
  progress: T1 with listenDuration 5 at the first snapshot, T2 with listenDuration 3 at
  the second, T3 with listenDuration 0 at the fourth; all three are early skips.  The
  repeated T2 snapshot records nothing.
\<close>

theorem inferencer_example_three_listens:
  assumes "track_id t1 \<noteq> track_id t2" and "track_id t2 \<noteq> track_id t3"
    and "duration_ms t1 = 200000" and "duration_ms t2 = 180000" and "duration_ms t3 = 150000"
  shows "trackListens (session (polls
           [(n1, snapshot t1 5000), (n2, snapshot t2 3000), (n3, snapshot t2 3000),
            (n4, snapshot t3 0)]
           (startSession n0 st))) =
         [\<lparr>track = t1, listenDuration = 5, totalDuration = 200, wasSkipped = True,
           wasEarlySkip = True, completionRate = Fin (5 / 2), timestamp = n1\<rparr>,
          \<lparr>track = t2, listenDuration = 3, totalDuration = 180, wasSkipped = True,
           wasEarlySkip = True, completionRate = Fin (5 / 3), timestamp = n2\<rparr>,
          \<lparr>track = t3, listenDuration = 0, totalDuration = 150, wasSkipped = True,
           wasEarlySkip = True, completionRate = Fin 0, timestamp = n4\<rparr>]
       \<and> trackListens (session (polls
           [(n1, snapshot t1 5000), (n2, snapshot t2 3000), (n3, snapshot t2 3000)]
           (startSession n0 st))) =
         trackListens (session (polls
           [(n1, snapshot t1 5000), (n2, snapshot t2 3000)]
           (startSession n0 st)))"
  using assms
  by (simp add: startSession_def snapshot_def pollCurrentlyPlaying_def appendListen_def
      newTrackListen_def Let_def)

theorem inferencer_example_three_listens_witness:
  "track_id T1 \<noteq> track_id T2 \<and> track_id T2 \<noteq> track_id T3
   \<and> duration_ms T1 = 200000 \<and> duration_ms T2 = 180000 \<and> duration_ms T3 = 150000
   \<and> map (\<lambda>l. (track_id (track l), listenDuration l, wasEarlySkip l))
        (trackListens (session (polls example_polls (startSession 0 initialState)))) =
      [(''T1'', 5, True), (''T2'', 3, True), (''T3'', 0, True)]"
  using inferencer_example_three_listens [of T1 T2 T3 1 2 3 4 0 initialState]
  by (simp add: example_polls_def T1_def T2_def T3_def)

text \<open>C1 as the spec states it (exactly two listens) fails: the example yields three
  listens, the third one for T3.\<close>

theorem inferencer_example_not_two_listens:
  "length (trackListens (session (polls example_polls (startSession 0 initialState)))) = 3
   \<and> length (trackListens (session (polls example_polls (startSession 0 initialState)))) \<noteq> 2
   \<and> track_id (track (last (trackListens
        (session (polls example_polls (startSession 0 initialState)))))) = ''T3''"
  by (simp add: example_polls_def startSession_def initialState_def snapshot_def
      pollCurrentlyPlaying_def appendListen_def newTrackListen_def T1_def T2_def T3_def Let_def)



subsection \<open>The session store\<close>

text \<open>
  C3.  On a session that is not active the append changes nothing: the session after it
  is the session before it, with every field as it was.  So a poll result that arrives
  after the stop, and any sequence of them, leaves the session untouched.
\<close>

theorem inactive_append_noop:
  assumes "\<not> isActive (session st)"
  shows "appendListen trk l (session st) = session st
     \<and> session (pollCurrentlyPlaying now f st) = session st
     \<and> session (polls ps st) = session st"
  using assms by (simp add: append_inactive poll_inactive polls_inactive)

theorem inactive_append_noop_witness:
  "\<not> isActive (session stopped_state)
   \<and> session (pollCurrentlyPlaying 10 (snapshot T2 3000) stopped_state) = session stopped_state
   \<and> map (\<lambda>l. track_id (track l)) (trackListens (session stopped_state)) = [''T1'']
   \<and> endTime (session stopped_state) = Some 9"
proof -
  have h: "\<not> isActive (session stopped_state)"
    by (simp add: stopped_state_def stopSession_def)
  have e: "map (\<lambda>l. track_id (track l)) (trackListens (session stopped_state)) = [''T1'']
      \<and> endTime (session stopped_state) = Some 9"
    by (simp add: stopped_state_def stopSession_def startSession_def initialState_def
        snapshot_def pollCurrentlyPlaying_def appendListen_def newTrackListen_def T1_def Let_def)
  from inactive_append_noop [OF h, of T2 "newTrackListen 10 T2 3" 10 "snapshot T2 3000" "[]"] h e
  show ?thesis by simp
qed

text \<open>
  C4.  On an active session the append leaves the tracks as they are when the track's id
  is among them and adds the track once otherwise, and the listens grow by exactly the
  new listen.  Hence in every session reached from the empty one by start, stop, clear
  and append no two tracks share an id, while the listens can repeat a track id.
\<close>

theorem tracks_distinct_listens_grow:
  "(isActive s \<longrightarrow>
      tracks (appendListen trk l s) =
        (if \<exists>t \<in> set (tracks s). track_id t = track_id trk then tracks s else tracks s @ [trk])
    \<and> trackListens (appendListen trk l s) = trackListens s @ [l])
   \<and> distinct (map track_id (tracks (run_ops ops)))
   \<and> (\<exists>ops'. \<not> distinct (map (\<lambda>l. track_id (track l)) (trackListens (run_ops ops'))))"
proof -
  have a: "isActive s \<longrightarrow>
      tracks (appendListen trk l s) =
        (if \<exists>t \<in> set (tracks s). track_id t = track_id trk then tracks s else tracks s @ [trk])
    \<and> trackListens (appendListen trk l s) = trackListens s @ [l]"
    by (simp add: appendListen_def Let_def)
  have b: "distinct (map track_id (tracks (run_ops ops)))"
    unfolding run_ops_def by (rule foldl_apply_op_distinct) (simp add: emptySession_def)
  have "\<not> distinct (map (\<lambda>l. track_id (track l)) (trackListens (run_ops
          [Start 0, Append T1 (newTrackListen 1 T1 5), Append T1 (newTrackListen 2 T1 7)])))"
    by (simp add: run_ops_def startSession_def appendListen_def newTrackListen_def Let_def)
  then have c: "\<exists>ops'. \<not> distinct (map (\<lambda>l. track_id (track l)) (trackListens (run_ops ops')))"
    by blast
  from a b c show ?thesis by blast
qed

theorem tracks_distinct_listens_grow_witness:
  "isActive (run_ops [Start 0, Append T1 (newTrackListen 1 T1 5)])
   \<and> tracks (run_ops [Start 0, Append T1 (newTrackListen 1 T1 5),
        Append T1 (newTrackListen 2 T1 7)]) = [T1]
   \<and> length (trackListens (run_ops [Start 0, Append T1 (newTrackListen 1 T1 5),
        Append T1 (newTrackListen 2 T1 7)])) = 2
   \<and> distinct (map track_id (tracks (run_ops [Start 0, Append T1 (newTrackListen 1 T1 5),
        Append T1 (newTrackListen 2 T1 7), Append T2 (newTrackListen 3 T2 9)])))"
proof -
  let ?s = "run_ops [Start 0, Append T1 (newTrackListen 1 T1 5)]"
  have h: "isActive ?s" "tracks ?s = [T1]" "length (trackListens ?s) = 1"
    by (simp_all add: run_ops_def startSession_def appendListen_def Let_def)
  have r: "run_ops [Start 0, Append T1 (newTrackListen 1 T1 5),
        Append T1 (newTrackListen 2 T1 7)] = appendListen T1 (newTrackListen 2 T1 7) ?s"
    by (simp add: run_ops_def)
  from tracks_distinct_listens_grow [of ?s T1 "newTrackListen 2 T1 7"
      "[Start 0, Append T1 (newTrackListen 1 T1 5),
        Append T1 (newTrackListen 2 T1 7), Append T2 (newTrackListen 3 T2 9)]"]
  show ?thesis
    using h by (simp add: r)
qed

section \<open>The metrics engine: theorems\<close>

subsection \<open>When the engine returns\<close>





subsection \<open>Behavioural metrics\<close>









subsection \<open>Session duration\<close>





subsection \<open>The counting loops build the groups\<close>



lemma distinct_first_seen [simp]: "distinct (first_seen xs)"
  by (simp add: first_seen_def)









subsection \<open>The top lists\<close>






















subsection \<open>Listening diversity\<close>






subsection \<open>Recommendations\<close>






















end
